theory Spec2Isabelle
  imports Main
begin

section \<open>Data model\<close>

text \<open>
  Go's \<^verbatim>\<open>int\<close> values (case identifiers, status and severity codes, HTTP status codes)
  are modelled as \<^typ>\<open>int\<close>: the program only compares, stores and prints them and never
  computes with them, so no wrap-around can occur. The one place where the 64-bit range of
  \<^verbatim>\<open>int\<close> is visible is \<^verbatim>\<open>strconv.Atoi\<close>, which reports a range error; that check is
  written out in \<open>Atoi\<close> below.

  A Go \<^verbatim>\<open>map[string]string\<close> is a partial map; reading a missing key (also of a nil map)
  yields the empty string, which is \<open>index_str\<close>.
\<close>

record Alert =
  Status :: string
  Labels :: "string \<rightharpoonup> string"
  Annotations :: "string \<rightharpoonup> string"
  StartsAt :: string
  EndsAt :: string
  GeneratorURL :: string
  Fingerprint :: string

record AlertmanagerPayload =
  Receiver :: string
  Alerts :: "Alert list"
  ExternalURL :: string
  GroupKey :: string

record AlertConfig =
  Source :: string
  CustomerID :: int
  ClassificationID :: int
  StatusIDNew :: int
  StatusIDResolved :: int
  ResolvedAction :: string
  DefaultSeverityID :: int
  SeverityMap :: "string \<rightharpoonup> int"

text \<open>
  \<^verbatim>\<open>IRISAlertRequest\<close>: the fields carry the names of their JSON tags. The source content
  is \<^verbatim>\<open>json.Marshal(alert)\<close>, an opaque serialisation of the alert; the model keeps the
  alert itself.
\<close>

record IRISAlertRequest =
  alert_title :: string
  alert_description :: string
  alert_source :: string
  alert_source_ref :: string
  alert_source_link :: string
  alert_source_event_time :: string
  alert_source_content :: Alert
  alert_severity_id :: int
  alert_status_id :: int
  alert_customer_id :: int
  alert_classification_id :: int
  alert_note :: string
  alert_tags :: string

text \<open>
  \<^verbatim>\<open>IRISAlertUpdateRequest\<close>: every field is a pointer (or an \<^verbatim>\<open>any\<close>) in the source,
  \<open>None\<close> is the nil pointer of a field that is not sent.
\<close>

record IRISAlertUpdateRequest =
  upd_title :: "string option"
  upd_description :: "string option"
  upd_source :: "string option"
  upd_source_ref :: "string option"
  upd_source_link :: "string option"
  upd_source_event_time :: "string option"
  upd_source_content :: "Alert option"
  upd_severity_id :: "int option"
  upd_status_id :: "int option"
  upd_customer_id :: "int option"
  upd_classification_id :: "int option"
  upd_tags :: "string option"

text \<open>
  \<^verbatim>\<open>IRISResponse\<close>, the response envelope. \<open>resp_data\<close> stands for the raw \<^verbatim>\<open>data\<close>
  message as \<^verbatim>\<open>json.Unmarshal(resp.Data, &data)\<close> reads it: \<open>Some n\<close> when it decodes to an
  \<^verbatim>\<open>IRISAlertData\<close> with \<^verbatim>\<open>alert_id\<close> \<open>n\<close>, \<open>None\<close> when decoding it fails.
\<close>

record IRISResponse =
  resp_status :: string
  resp_data :: "int option"
  resp_message :: string

text \<open>
  Errors are values. \<open>Wrap msg e\<close> is \<^verbatim>\<open>fmt.Errorf(msg + ": %w", e)\<close>.
\<close>

datatype err =
    ErrKeyNotFound
  | ErrBadger
  | ErrSyntax
  | ErrRange
  | ErrNewRequest
  | ErrTransport
  | ErrRead
  | ErrJSON
  | ErrStatusCode int
  | ErrIrisApi string
  | Wrap string err

definition index_str :: "(string \<rightharpoonup> string) \<Rightarrow> string \<Rightarrow> string" where
  "index_str m k = (case m k of None \<Rightarrow> [] | Some v \<Rightarrow> v)"


section \<open>The remote case client\<close>

text \<open>
  What one HTTP exchange of \<^verbatim>\<open>do\<close> can yield, as seen by the code:
  \<^verbatim>\<open>http.NewRequest\<close> fails, \<^verbatim>\<open>httpClient.Do\<close> fails, \<^verbatim>\<open>io.ReadAll\<close> fails, or a
  response arrives with a status code and a body. Of the body the model keeps what
  \<^verbatim>\<open>json.Unmarshal(respBody, &irisResp)\<close> makes of it: \<open>None\<close> when it does not parse.
  The transport hands over an empty body for a 1xx, 204 or 304 response, and an empty body
  does not parse: such a response is \<open>Response code None\<close>.
\<close>

datatype http_outcome =
    NewRequestFailed
  | DoFailed
  | ReadAllFailed
  | Response int "IRISResponse option"

fun do_request :: "http_outcome \<Rightarrow> err + IRISResponse" where
  "do_request NewRequestFailed = Inl (Wrap ''create request'' ErrNewRequest)"
| "do_request DoFailed = Inl (Wrap ''http'' ErrTransport)"
| "do_request ReadAllFailed = Inl (Wrap ''read response'' ErrRead)"
| "do_request (Response StatusCode parsed) =
     (if StatusCode \<ge> 400 then Inl (ErrStatusCode StatusCode)
      else case parsed of
        None \<Rightarrow> Inl (Wrap ''unmarshal response'' ErrJSON)
      | Some irisResp \<Rightarrow>
          if resp_status irisResp \<noteq> ''success''
          then Inl (ErrIrisApi (resp_message irisResp))
          else Inr irisResp)"

text \<open>
  The three operations of the client, as functions of what the HTTP exchange performed by
  \<^verbatim>\<open>do\<close> yields. \<^verbatim>\<open>json.Marshal(req)\<close> cannot fail on these request types (strings,
  integers and an already serialised alert), so its error branch has no input and is left
  out. The request, the case id, the customer id of the query and the headers go on the
  wire only; they do not influence what the operation returns.
\<close>

definition CreateAlert :: "IRISAlertRequest \<Rightarrow> http_outcome \<Rightarrow> err + int" where
  "CreateAlert req out =
     (case do_request out of
        Inl e \<Rightarrow> Inl e
      | Inr resp \<Rightarrow>
          (case resp_data resp of
             None \<Rightarrow> Inl (Wrap ''unmarshal alert data'' ErrJSON)
           | Some AlertID \<Rightarrow> Inr AlertID))"

definition UpdateAlert :: "int \<Rightarrow> IRISAlertUpdateRequest \<Rightarrow> http_outcome \<Rightarrow> err option" where
  "UpdateAlert alertID req out = (case do_request out of Inl e \<Rightarrow> Some e | Inr _ \<Rightarrow> None)"

definition DeleteAlert :: "int \<Rightarrow> http_outcome \<Rightarrow> err option" where
  "DeleteAlert alertID out = (case do_request out of Inl e \<Rightarrow> Some e | Inr _ \<Rightarrow> None)"


section \<open>Decimal encoding of case identifiers\<close>

text \<open>
  \<^verbatim>\<open>strconv.Itoa\<close> and \<^verbatim>\<open>strconv.Atoi\<close>. \<open>Atoi\<close> accepts an optional sign followed by at
  least one decimal digit and nothing else (a syntax error otherwise), and reports a range
  error for a value outside the 64-bit \<^verbatim>\<open>int\<close>. For a string that is both ill-formed
  and too long the kind of the error may differ from Go's; the handler treats both kinds
  alike and the index never holds such a string written by \<open>Itoa\<close>.
\<close>

definition digit_char :: "nat \<Rightarrow> char" where
  "digit_char d = ''0123456789'' ! d"

definition is_digit :: "char \<Rightarrow> bool" where
  "is_digit c = (48 \<le> (of_char c :: nat) \<and> (of_char c :: nat) \<le> 57)"

definition digit_val :: "char \<Rightarrow> nat" where
  "digit_val c = of_char c - 48"

function digits_of :: "nat \<Rightarrow> string" where
  "digits_of n =
     (if n < 10 then [digit_char n] else digits_of (n div 10) @ [digit_char (n mod 10)])"
  by pat_completeness auto
termination
  by (relation "measure id") auto

declare digits_of.simps [simp del]

definition Itoa :: "int \<Rightarrow> string" where
  "Itoa i = (if i < 0 then CHR ''-'' # digits_of (nat (- i)) else digits_of (nat i))"

definition parse_digits :: "string \<Rightarrow> nat" where
  "parse_digits s = foldl (\<lambda>n ch. n * 10 + digit_val ch) 0 s"

definition Atoi :: "string \<Rightarrow> err + int" where
  "Atoi s =
     (let neg = (s \<noteq> [] \<and> hd s = CHR ''-'');
          ds = (if s \<noteq> [] \<and> (hd s = CHR ''-'' \<or> hd s = CHR ''+'') then tl s else s)
      in if ds = [] \<or> \<not> list_all is_digit ds then Inl ErrSyntax
         else let n = int (parse_digits ds); v = (if neg then - n else n)
              in if v < - (2 ^ 63) \<or> 2 ^ 63 \<le> v then Inl ErrRange else Inr v)"


section \<open>The durable fingerprint index and the world around the handler\<close>

text \<open>
  The handler owns no state of its own: its effects are on the badger store and on the
  remote system. \<open>store\<close> is the content of the badger store (key to value, both byte
  strings). \<open>trace\<close> records, oldest first, every interaction the handler has had with
  the store and with the client, whether it succeeded or not; the remote calls issued are
  the \<open>Call\<close> events of the trace.

  What the environment answers is not decided by the code. It is a parameter \<open>e\<close> of every
  operation, asked at the number of the interaction (the length of the trace so far):
  \<open>db_fault e n\<close> says that the badger transaction at interaction \<open>n\<close> fails (an I/O
  error, a closed store, a rejected or conflicting transaction), \<open>http e n\<close> is what the
  HTTP exchange at interaction \<open>n\<close> yields. All theorems hold for every such \<open>e\<close>.
\<close>

datatype remote_call =
    Create IRISAlertRequest
  | Update int IRISAlertUpdateRequest
  | Delete int

datatype event =
    DbGet string
  | DbSet string string
  | DbDelete string
  | Call remote_call

record world =
  store :: "string \<rightharpoonup> string"
  trace :: "event list"

record env =
  db_fault :: "nat \<Rightarrow> bool"
  http :: "nat \<Rightarrow> http_outcome"

definition record_event :: "event \<Rightarrow> world \<Rightarrow> world" where
  "record_event ev w = w\<lparr>trace := trace w @ [ev]\<rparr>"

text \<open>The HTTP round trip of a client operation: the call is issued, the remote answers.\<close>

definition exchange :: "env \<Rightarrow> remote_call \<Rightarrow> world \<Rightarrow> http_outcome \<times> world" where
  "exchange e c w = (http e (length (trace w)), record_event (Call c) w)"

definition dbKey :: "string \<Rightarrow> string" where
  "dbKey fingerprint = ''fp:'' @ fingerprint"

definition getAlertID :: "env \<Rightarrow> string \<Rightarrow> world \<Rightarrow> (err + int) \<times> world" where
  "getAlertID e fingerprint w =
     (let w' = record_event (DbGet (dbKey fingerprint)) w in
      if db_fault e (length (trace w)) then (Inl ErrBadger, w')
      else case store w (dbKey fingerprint) of
             None \<Rightarrow> (Inl ErrKeyNotFound, w')
           | Some val \<Rightarrow> (Atoi val, w'))"

definition storeAlertID :: "env \<Rightarrow> string \<Rightarrow> int \<Rightarrow> world \<Rightarrow> err option \<times> world" where
  "storeAlertID e fingerprint alertID w =
     (let w' = record_event (DbSet (dbKey fingerprint) (Itoa alertID)) w in
      if db_fault e (length (trace w)) then (Some ErrBadger, w')
      else (None, w'\<lparr>store := (store w)(dbKey fingerprint \<mapsto> Itoa alertID)\<rparr>))"

definition deleteAlertID :: "env \<Rightarrow> string \<Rightarrow> world \<Rightarrow> err option \<times> world" where
  "deleteAlertID e fingerprint w =
     (let w' = record_event (DbDelete (dbKey fingerprint)) w in
      if db_fault e (length (trace w)) then (Some ErrBadger, w')
      else (None, w'\<lparr>store := (store w)(dbKey fingerprint := None)\<rparr>))"


section \<open>Severity and description mapping\<close>

definition severityID :: "AlertConfig \<Rightarrow> Alert \<Rightarrow> int" where
  "severityID config alert =
     (case Labels alert ''severity'' of
        Some sev \<Rightarrow>
          (case SeverityMap config sev of
             Some sevID \<Rightarrow> sevID
           | None \<Rightarrow> DefaultSeverityID config)
      | None \<Rightarrow> DefaultSeverityID config)"

text \<open>\<^verbatim>\<open>strings.Join\<close>.\<close>

fun Join :: "string list \<Rightarrow> string \<Rightarrow> string" where
  "Join [] sep = []"
| "Join [x] sep = x"
| "Join (x # y # ys) sep = x @ sep @ Join (y # ys) sep"

text \<open>The closure \<^verbatim>\<open>add\<close> of \<^verbatim>\<open>alertDescription\<close>, with the slice it appends to.\<close>

definition add :: "string \<Rightarrow> string \<Rightarrow> string list \<Rightarrow> string list" where
  "add key val lines = (if val \<noteq> [] then lines @ [key @ '': '' @ val] else lines)"

definition alertDescription :: "Alert \<Rightarrow> string" where
  "alertDescription alert =
     (let lines = [];
          lines = add ''Alert'' (index_str (Labels alert) ''alertname'') lines;
          lines = add ''Severity'' (index_str (Labels alert) ''severity'') lines;
          lines = add ''Description'' (index_str (Annotations alert) ''description'') lines;
          lines = add ''Summary'' (index_str (Annotations alert) ''summary'') lines;
          lines = add ''Hostname'' (index_str (Labels alert) ''hostname'') lines;
          lines = add ''Instance'' (index_str (Labels alert) ''instance_name'') lines;
          lines = add ''Service'' (index_str (Labels alert) ''service'') lines;
          lines = add ''Group'' (index_str (Labels alert) ''group'') lines;
          lines = add ''Tier'' (index_str (Labels alert) ''tier'') lines;
          lines = add ''Load'' (index_str (Annotations alert) ''load'') lines;
          lines = add ''Started At'' (StartsAt alert) lines;
          lines = add ''Fingerprint'' (Fingerprint alert) lines;
          lines = add ''Generator URL'' (GeneratorURL alert) lines
      in Join lines [CHR 0x0A])"


section \<open>The alert lifecycle reconciler\<close>

text \<open>
  The request values that \<^verbatim>\<open>createAlert\<close> and \<^verbatim>\<open>updateAlert\<close> build. Fields the source
  does not set hold Go's zero value (create) or the nil pointer (update).
\<close>

definition create_request :: "AlertConfig \<Rightarrow> Alert \<Rightarrow> IRISAlertRequest" where
  "create_request config alert =
     \<lparr> alert_title = index_str (Labels alert) ''alertname'',
       alert_description = alertDescription alert,
       alert_source = Source config,
       alert_source_ref = Fingerprint alert,
       alert_source_link = GeneratorURL alert,
       alert_source_event_time = StartsAt alert,
       alert_source_content = alert,
       alert_severity_id = severityID config alert,
       alert_status_id = StatusIDNew config,
       alert_customer_id = CustomerID config,
       alert_classification_id = 0,
       alert_note = [],
       alert_tags = index_str (Labels alert) ''alertname'' \<rparr>"

definition empty_update :: IRISAlertUpdateRequest where
  "empty_update =
     \<lparr> upd_title = None, upd_description = None, upd_source = None, upd_source_ref = None,
       upd_source_link = None, upd_source_event_time = None, upd_source_content = None,
       upd_severity_id = None, upd_status_id = None, upd_customer_id = None,
       upd_classification_id = None, upd_tags = None \<rparr>"

definition update_request :: "AlertConfig \<Rightarrow> Alert \<Rightarrow> IRISAlertUpdateRequest" where
  "update_request config alert =
     empty_update
     \<lparr> upd_description := Some (alertDescription alert),
       upd_source_event_time := Some (StartsAt alert),
       upd_source_content := Some alert,
       upd_severity_id := Some (severityID config alert),
       upd_tags := Some (index_str (Labels alert) ''alertname'') \<rparr>"

definition resolve_request :: "AlertConfig \<Rightarrow> IRISAlertUpdateRequest" where
  "resolve_request config = empty_update \<lparr> upd_status_id := Some (StatusIDResolved config) \<rparr>"

definition createAlert :: "AlertConfig \<Rightarrow> env \<Rightarrow> Alert \<Rightarrow> world \<Rightarrow> err option \<times> world" where
  "createAlert config e alert w =
     (let req = create_request config alert in
      case exchange e (Create req) w of (out, w1) \<Rightarrow>
        (case CreateAlert req out of
           Inl er \<Rightarrow> (Some (Wrap ''create iris alert'' er), w1)
         | Inr alertID \<Rightarrow>
             (case storeAlertID e (Fingerprint alert) alertID w1 of
                (Some er, w2) \<Rightarrow> (Some (Wrap ''store alert mapping'' er), w2)
              | (None, w2) \<Rightarrow> (None, w2))))"

definition updateAlert :: "AlertConfig \<Rightarrow> env \<Rightarrow> int \<Rightarrow> Alert \<Rightarrow> world \<Rightarrow> err option \<times> world" where
  "updateAlert config e alertID alert w =
     (let req = update_request config alert in
      case exchange e (Update alertID req) w of (out, w1) \<Rightarrow>
        (case UpdateAlert alertID req out of
           Some er \<Rightarrow> (Some (Wrap ''update iris alert'' er), w1)
         | None \<Rightarrow> (None, w1)))"

definition resolveAlert :: "AlertConfig \<Rightarrow> env \<Rightarrow> int \<Rightarrow> Alert \<Rightarrow> world \<Rightarrow> err option \<times> world" where
  "resolveAlert config e alertID alert w =
     (if ResolvedAction config = ''delete'' then
        (case exchange e (Delete alertID) w of (out, w1) \<Rightarrow>
           (case DeleteAlert alertID out of
              Some er \<Rightarrow> (Some (Wrap ''delete iris alert'' er), w1)
            | None \<Rightarrow>
                (case deleteAlertID e (Fingerprint alert) w1 of
                   (Some er, w2) \<Rightarrow> (Some (Wrap ''delete alert mapping'' er), w2)
                 | (None, w2) \<Rightarrow> (None, w2))))
      else
        (let req = resolve_request config in
         case exchange e (Update alertID req) w of (out, w1) \<Rightarrow>
           (case UpdateAlert alertID req out of
              Some er \<Rightarrow> (Some (Wrap ''resolve iris alert'' er), w1)
            | None \<Rightarrow>
                (case deleteAlertID e (Fingerprint alert) w1 of
                   (Some er, w2) \<Rightarrow> (Some (Wrap ''delete alert mapping'' er), w2)
                 | (None, w2) \<Rightarrow> (None, w2)))))"

text \<open>
  \<^verbatim>\<open>processAlert\<close>. \<open>exists\<close> is \<^verbatim>\<open>err == nil\<close> of the lookup; a lookup error other than
  \<^verbatim>\<open>badger.ErrKeyNotFound\<close> ends the processing at once.
\<close>

definition processAlert :: "AlertConfig \<Rightarrow> env \<Rightarrow> Alert \<Rightarrow> world \<Rightarrow> err option \<times> world" where
  "processAlert config e alert w =
     (let fp = Fingerprint alert in
      case getAlertID e fp w of (res, w1) \<Rightarrow>
        if isl res \<and> projl res \<noteq> ErrKeyNotFound
        then (Some (Wrap ''db lookup'' (projl res)), w1)
        else
          let exists = \<not> isl res;
              existingID = (case res of Inr n \<Rightarrow> n | Inl _ \<Rightarrow> 0)
          in if Status alert = ''firing'' then
               (if exists then updateAlert config e existingID alert w1
                else createAlert config e alert w1)
             else if Status alert = ''resolved'' then
               (if \<not> exists then (None, w1)
                else resolveAlert config e existingID alert w1)
             else (None, w1))"


section \<open>Webhook ingress\<close>

text \<open>
  Of the inbound request the handler reads the method and the body; \<open>Payload\<close> is what
  \<^verbatim>\<open>json.NewDecoder(r.Body).Decode(&payload)\<close> makes of the body, \<open>None\<close> when decoding
  fails. The handler answers with an HTTP status code. The loop keeps, per alert, what
  \<^verbatim>\<open>processAlert\<close> returned (an error is logged, nothing else is done with it).
\<close>

record Request =
  Method :: string
  Payload :: "AlertmanagerPayload option"

fun process_alerts ::
  "AlertConfig \<Rightarrow> env \<Rightarrow> Alert list \<Rightarrow> world \<Rightarrow> err option list \<times> world" where
  "process_alerts config e [] w = ([], w)"
| "process_alerts config e (alert # rest) w =
     (case processAlert config e alert w of
        (Some er, w1) \<Rightarrow>
          (case process_alerts config e rest w1 of (outs, w2) \<Rightarrow> (Some er # outs, w2))
      | (None, w1) \<Rightarrow>
          (case process_alerts config e rest w1 of (outs, w2) \<Rightarrow> (None # outs, w2)))"

definition HandleWebhook ::
  "AlertConfig \<Rightarrow> env \<Rightarrow> Request \<Rightarrow> world \<Rightarrow> int \<times> err option list \<times> world" where
  "HandleWebhook config e r w =
     (if Method r \<noteq> ''POST'' then (405, [], w)
      else case Payload r of
        None \<Rightarrow> (400, [], w)
      | Some payload \<Rightarrow>
          (case process_alerts config e (Alerts payload) w of
             (outs, w') \<Rightarrow> (200, outs, w')))"


section \<open>Observing a run\<close>

text \<open>
  What the theorems below read off a run: the events a step added to the trace, the remote
  calls among some events, whether an event is a write to the index, and whether a remote
  call, answered by a given HTTP exchange, returns an error.
\<close>

definition new_events :: "world \<Rightarrow> world \<Rightarrow> event list" where
  "new_events w w' = drop (length (trace w)) (trace w')"

fun remote_calls :: "event list \<Rightarrow> remote_call list" where
  "remote_calls [] = []"
| "remote_calls (Call c # evs) = c # remote_calls evs"
| "remote_calls (ev # evs) = remote_calls evs"

fun is_mutation :: "event \<Rightarrow> bool" where
  "is_mutation (DbSet k v) = True"
| "is_mutation (DbDelete k) = True"
| "is_mutation ev = False"

fun call_error :: "remote_call \<Rightarrow> http_outcome \<Rightarrow> err option" where
  "call_error (Create req) out =
     (case CreateAlert req out of Inl er \<Rightarrow> Some er | Inr _ \<Rightarrow> None)"
| "call_error (Update alertID req) out = UpdateAlert alertID req out"
| "call_error (Delete alertID) out = DeleteAlert alertID out"

text \<open>The remote call by which \<^verbatim>\<open>resolveAlert\<close> resolves the case \<open>alertID\<close>.\<close>

definition resolve_call :: "AlertConfig \<Rightarrow> int \<Rightarrow> remote_call" where
  "resolve_call config alertID =
     (if ResolvedAction config = ''delete'' then Delete alertID
      else Update alertID (resolve_request config))"

text \<open>The world in which the \<open>i\<close>-th alert of a batch is processed (counting from 0).\<close>

definition world_before :: "AlertConfig \<Rightarrow> env \<Rightarrow> Alert list \<Rightarrow> world \<Rightarrow> nat \<Rightarrow> world" where
  "world_before config e alerts w i =
     foldl (\<lambda>v alert. snd (processAlert config e alert v)) w (take i alerts)"


section \<open>Two requests at once\<close>

text \<open>
  \<^verbatim>\<open>net/http\<close> runs the handler of every request in a goroutine of its own, and the
  handler holds no lock. Each badger transaction (\<^verbatim>\<open>db.View\<close>, \<^verbatim>\<open>db.Update\<close>) and each
  remote call is one step; between the steps of one request the steps of another may run.
  \<open>two_firing_requests\<close> is one such schedule of two requests \<open>A\<close> and \<open>B\<close> that both
  carry the same firing alert: \<open>A\<close> looks up, \<open>B\<close> looks up, \<open>A\<close> creates, \<open>B\<close> creates,
  \<open>A\<close> stores, \<open>B\<close> stores. The steps are those of \<open>processAlert\<close> and \<open>createAlert\<close>,
  and each request takes the branches that its own lookup and its own create call select;
  the schedule is defined when both lookups report no entry and both create calls succeed.
  It yields the world after the write of \<open>A\<close> and the world after the write of \<open>B\<close>.
\<close>

definition two_firing_requests ::
  "AlertConfig \<Rightarrow> env \<Rightarrow> Alert \<Rightarrow> world \<Rightarrow> (world \<times> world) option" where
  "two_firing_requests config e alert w =
     (let fp = Fingerprint alert; req = create_request config alert in
      case getAlertID e fp w of (resA, w1) \<Rightarrow>
      case getAlertID e fp w1 of (resB, w2) \<Rightarrow>
        if Status alert = ''firing'' \<and> resA = Inl ErrKeyNotFound \<and> resB = Inl ErrKeyNotFound
        then
          case exchange e (Create req) w2 of (outA, w3) \<Rightarrow>
          case exchange e (Create req) w3 of (outB, w4) \<Rightarrow>
            (case (CreateAlert req outA, CreateAlert req outB) of
               (Inr idA, Inr idB) \<Rightarrow>
                 (case storeAlertID e fp idA w4 of (errA, w5) \<Rightarrow>
                  case storeAlertID e fp idB w5 of (errB, w6) \<Rightarrow>
                    if errA = None \<and> errB = None then Some (w5, w6) else None)
             | _ \<Rightarrow> None)
        else None)"


section \<open>The wording of the specification\<close>

text \<open>
  The error condition of a remote call as the specification words it: the transport fails,
  the HTTP status is not 2xx, the body fails to parse, or the envelope's status is not
  \<^verbatim>\<open>"success"\<close>. A request that cannot be built and a body that cannot be read are
  counted with the transport failures.
\<close>

definition spec_call_error :: "http_outcome \<Rightarrow> bool" where
  "spec_call_error out =
     (case out of
        NewRequestFailed \<Rightarrow> True
      | DoFailed \<Rightarrow> True
      | ReadAllFailed \<Rightarrow> True
      | Response code parsed \<Rightarrow>
          \<not> (200 \<le> code \<and> code < 300) \<or>
          (case parsed of None \<Rightarrow> True | Some resp \<Rightarrow> resp_status resp \<noteq> ''success''))"

text \<open>
  The recognized fields of the description in the order the specification lists them, each
  with its label, and the lines emitted for a list of fields: one per field whose value is
  not empty.
\<close>

definition recognized_fields :: "Alert \<Rightarrow> (string \<times> string) list" where
  "recognized_fields alert =
     [(''Alert'', index_str (Labels alert) ''alertname''),
      (''Severity'', index_str (Labels alert) ''severity''),
      (''Description'', index_str (Annotations alert) ''description''),
      (''Summary'', index_str (Annotations alert) ''summary''),
      (''Hostname'', index_str (Labels alert) ''hostname''),
      (''Instance'', index_str (Labels alert) ''instance_name''),
      (''Service'', index_str (Labels alert) ''service''),
      (''Group'', index_str (Labels alert) ''group''),
      (''Tier'', index_str (Labels alert) ''tier''),
      (''Load'', index_str (Annotations alert) ''load''),
      (''Started At'', StartsAt alert),
      (''Fingerprint'', Fingerprint alert),
      (''Generator URL'', GeneratorURL alert)]"

definition emitted_lines :: "(string \<times> string) list \<Rightarrow> string list" where
  "emitted_lines fs =
     map (\<lambda>(label, val). label @ '': '' @ val) (filter (\<lambda>(label, val). val \<noteq> []) fs)"


section \<open>Example inputs\<close>

text \<open>
  The configuration is the program's defaults with the severity table of the README; the
  alert and the fingerprint are those of the specification's scenario.
\<close>

definition config_update :: AlertConfig where
  "config_update =
     \<lparr> Source = ''alertmanager'', CustomerID = 1, ClassificationID = 0, StatusIDNew = 2,
       StatusIDResolved = 6, ResolvedAction = ''update'', DefaultSeverityID = 4,
       SeverityMap = [''critical'' \<mapsto> 6, ''high'' \<mapsto> 5, ''warning'' \<mapsto> 4, ''info'' \<mapsto> 3] \<rparr>"

definition config_delete :: AlertConfig where
  "config_delete = config_update \<lparr> ResolvedAction := ''delete'' \<rparr>"

definition config_blank :: AlertConfig where
  "config_blank = config_update \<lparr> ResolvedAction := [] \<rparr>"

definition alert_DiskFull :: "string \<Rightarrow> Alert" where
  "alert_DiskFull status =
     \<lparr> Status = status, Labels = [''alertname'' \<mapsto> ''DiskFull''], Annotations = Map.empty,
       StartsAt = ''2024-01-01T00:00:00Z'', EndsAt = [], GeneratorURL = [],
       Fingerprint = ''abc123'' \<rparr>"

definition alert_other :: Alert where
  "alert_other =
     \<lparr> Status = ''firing'', Labels = [''alertname'' \<mapsto> ''HighLoad''], Annotations = Map.empty,
       StartsAt = [], EndsAt = [], GeneratorURL = [], Fingerprint = ''def456'' \<rparr>"

definition alert_X :: Alert where
  "alert_X =
     \<lparr> Status = ''firing'',
       Labels = [''alertname'' \<mapsto> ''X'', ''severity'' \<mapsto> ''warning''],
       Annotations = Map.empty,
       StartsAt = [], EndsAt = [], GeneratorURL = [], Fingerprint = [] \<rparr>"

definition world_empty :: world where
  "world_empty = \<lparr> store = Map.empty, trace = [] \<rparr>"

definition world_tracked :: world where
  "world_tracked = \<lparr> store = [''fp:abc123'' \<mapsto> ''7''], trace = [] \<rparr>"

definition success_response :: "int \<Rightarrow> http_outcome" where
  "success_response n =
     Response 200 (Some \<lparr>resp_status = ''success'', resp_data = Some n, resp_message = []\<rparr>)"

text \<open>
  A 300 (Multiple Choices) response whose body is a success envelope. The client does not
  follow a 300 as a redirect and receives it with its body.
\<close>

definition multiple_choices :: http_outcome where
  "multiple_choices =
     Response 300 (Some \<lparr>resp_status = ''success'', resp_data = Some 7, resp_message = []\<rparr>)"

definition env_ok :: env where
  "env_ok = \<lparr> db_fault = (\<lambda>n. False), http = (\<lambda>n. success_response 7) \<rparr>"

definition env_store_fails :: env where
  "env_store_fails = \<lparr> db_fault = (\<lambda>n. n = 2), http = (\<lambda>n. success_response 7) \<rparr>"

definition env_remote_down :: env where
  "env_remote_down = \<lparr> db_fault = (\<lambda>n. False), http = (\<lambda>n. Response 500 None) \<rparr>"

definition env_first_call_fails :: env where
  "env_first_call_fails =
     \<lparr> db_fault = (\<lambda>n. False),
       http = (\<lambda>n. if n = 1 then Response 500 None else success_response 8) \<rparr>"

definition env_two_cases :: env where
  "env_two_cases =
     \<lparr> db_fault = (\<lambda>n. False),
       http = (\<lambda>n. if n = 2 then success_response 7 else success_response 8) \<rparr>"

definition batch_request :: Request where
  "batch_request =
     \<lparr> Method = ''POST'',
       Payload = Some \<lparr> Receiver = ''iris'', Alerts = [alert_DiskFull ''firing'', alert_other],
                        ExternalURL = [], GroupKey = [] \<rparr> \<rparr>"


section \<open>The decimal encoding round-trips\<close>

lemma lt10_cases: "d < 10 \<Longrightarrow> d \<in> {0, 1, 2, 3, 4, 5, 6, 7, 8, 9::nat}"
  by auto

lemma is_digit_digit_char: "d < 10 \<Longrightarrow> is_digit (digit_char d)"
  by (drule lt10_cases) (auto simp: is_digit_def digit_char_def)

lemma digit_val_digit_char: "d < 10 \<Longrightarrow> digit_val (digit_char d) = d"
  by (drule lt10_cases) (auto simp: digit_val_def digit_char_def)

lemma digits_of_nonempty: "digits_of n \<noteq> []"
  by (subst digits_of.simps) simp

lemma digits_of_all_digits: "list_all is_digit (digits_of n)"
  by (induction n rule: digits_of.induct) (subst digits_of.simps, simp add: is_digit_digit_char)

lemma parse_digits_snoc: "parse_digits (s @ [c]) = parse_digits s * 10 + digit_val c"
  by (simp add: parse_digits_def)

lemma parse_digits_digits_of: "parse_digits (digits_of n) = n"
proof (induction n rule: digits_of.induct)
  case (1 n)
  show ?case
  proof (cases "n < 10")
    case True
    then show ?thesis
      by (subst digits_of.simps) (simp add: parse_digits_def digit_val_digit_char)
  next
    case False
    with 1 show ?thesis
      by (subst digits_of.simps) (simp add: parse_digits_snoc digit_val_digit_char)
  qed
qed

lemma hd_digits_of_not_sign:
  "hd (digits_of n) \<noteq> CHR ''-'' \<and> hd (digits_of n) \<noteq> CHR ''+''"
proof -
  have "is_digit (hd (digits_of n))"
    using digits_of_all_digits [of n] digits_of_nonempty [of n]
    by (cases "digits_of n") simp_all
  then show ?thesis
    by (auto simp: is_digit_def)
qed

text \<open>Every 64-bit case identifier is read back from the store as it was written.\<close>

lemma Atoi_Itoa:
  assumes "- (2 ^ 63) \<le> i" and "i < 2 ^ 63"
  shows "Atoi (Itoa i) = Inr i"
proof (cases "i < 0")
  case True
  with assms show ?thesis
    by (simp add: Atoi_def Itoa_def digits_of_nonempty digits_of_all_digits
        parse_digits_digits_of Let_def)
next
  case False
  with assms show ?thesis
    using hd_digits_of_not_sign [of "nat i"]
    by (simp add: Atoi_def Itoa_def digits_of_nonempty digits_of_all_digits
        parse_digits_digits_of Let_def)
qed

lemma Atoi_not_KeyNotFound: "Atoi s \<noteq> Inl ErrKeyNotFound"
  by (simp add: Atoi_def Let_def)

lemma Itoa_8: "Itoa 8 = ''8''"
  by (simp add: Itoa_def digits_of.simps digit_char_def)

lemma Itoa_7: "Itoa 7 = ''7''"
  by (simp add: Itoa_def digits_of.simps digit_char_def)


section \<open>Each operation of the handler, run symbolically\<close>

text \<open>
  The result of every handler operation as one explicit case distinction over what the
  environment answers. The claims are proved from these equations.
\<close>

lemma getAlertID_eq:
  "getAlertID e fp w =
     (if db_fault e (length (trace w)) then Inl ErrBadger
      else case store w (dbKey fp) of None \<Rightarrow> Inl ErrKeyNotFound | Some v \<Rightarrow> Atoi v,
      w\<lparr>trace := trace w @ [DbGet (dbKey fp)]\<rparr>)"
  by (simp add: getAlertID_def record_event_def Let_def split: option.splits)

lemma getAlertID_not_found:
  "fst (getAlertID e fp w) = Inl ErrKeyNotFound \<longleftrightarrow>
     \<not> db_fault e (length (trace w)) \<and> store w (dbKey fp) = None"
  by (auto simp: getAlertID_eq Atoi_not_KeyNotFound split: option.splits)

lemma createAlert_eq:
  "createAlert config e alert w =
     (case CreateAlert (create_request config alert) (http e (length (trace w))) of
        Inl er \<Rightarrow>
          (Some (Wrap ''create iris alert'' er),
           w\<lparr>trace := trace w @ [Call (Create (create_request config alert))]\<rparr>)
      | Inr alertID \<Rightarrow>
          if db_fault e (Suc (length (trace w)))
          then (Some (Wrap ''store alert mapping'' ErrBadger),
                w\<lparr>trace := trace w @ [Call (Create (create_request config alert)),
                                        DbSet (dbKey (Fingerprint alert)) (Itoa alertID)]\<rparr>)
          else (None,
                w\<lparr>store := (store w)(dbKey (Fingerprint alert) \<mapsto> Itoa alertID),
                  trace := trace w @ [Call (Create (create_request config alert)),
                                        DbSet (dbKey (Fingerprint alert)) (Itoa alertID)]\<rparr>))"
  by (simp add: createAlert_def exchange_def storeAlertID_def record_event_def Let_def
      split: sum.splits)

lemma updateAlert_eq:
  "updateAlert config e alertID alert w =
     (case UpdateAlert alertID (update_request config alert) (http e (length (trace w))) of
        Some er \<Rightarrow> Some (Wrap ''update iris alert'' er)
      | None \<Rightarrow> None,
      w\<lparr>trace := trace w @ [Call (Update alertID (update_request config alert))]\<rparr>)"
  by (simp add: updateAlert_def exchange_def record_event_def Let_def split: option.splits)

lemma resolveAlert_eq:
  "resolveAlert config e alertID alert w =
     (case call_error (resolve_call config alertID) (http e (length (trace w))) of
        Some er \<Rightarrow>
          (Some (Wrap (if ResolvedAction config = ''delete'' then ''delete iris alert''
                       else ''resolve iris alert'') er),
           w\<lparr>trace := trace w @ [Call (resolve_call config alertID)]\<rparr>)
      | None \<Rightarrow>
          if db_fault e (Suc (length (trace w)))
          then (Some (Wrap ''delete alert mapping'' ErrBadger),
                w\<lparr>trace := trace w @ [Call (resolve_call config alertID),
                                        DbDelete (dbKey (Fingerprint alert))]\<rparr>)
          else (None,
                w\<lparr>store := (store w)(dbKey (Fingerprint alert) := None),
                  trace := trace w @ [Call (resolve_call config alertID),
                                        DbDelete (dbKey (Fingerprint alert))]\<rparr>))"
  by (simp add: resolveAlert_def resolve_call_def exchange_def deleteAlertID_def
      record_event_def Let_def split: option.splits)

lemma processAlert_eq:
  "processAlert config e alert w =
     (let w1 = w\<lparr>trace := trace w @ [DbGet (dbKey (Fingerprint alert))]\<rparr> in
      case fst (getAlertID e (Fingerprint alert) w) of
        Inl er \<Rightarrow>
          if er \<noteq> ErrKeyNotFound then (Some (Wrap ''db lookup'' er), w1)
          else if Status alert = ''firing'' then createAlert config e alert w1
          else (None, w1)
      | Inr existingID \<Rightarrow>
          if Status alert = ''firing'' then updateAlert config e existingID alert w1
          else if Status alert = ''resolved'' then resolveAlert config e existingID alert w1
          else (None, w1))"
  by (simp add: processAlert_def getAlertID_eq Let_def split: sum.splits option.splits)

lemma processAlert_firing_untracked:
  "Status alert = ''firing'' \<Longrightarrow> fst (getAlertID e (Fingerprint alert) w) = Inl ErrKeyNotFound \<Longrightarrow>
     processAlert config e alert w =
       createAlert config e alert (w\<lparr>trace := trace w @ [DbGet (dbKey (Fingerprint alert))]\<rparr>)"
  by (simp add: processAlert_eq)

lemma processAlert_firing_tracked:
  "Status alert = ''firing'' \<Longrightarrow> fst (getAlertID e (Fingerprint alert) w) = Inr alertID \<Longrightarrow>
     processAlert config e alert w =
       updateAlert config e alertID alert
         (w\<lparr>trace := trace w @ [DbGet (dbKey (Fingerprint alert))]\<rparr>)"
  by (simp add: processAlert_eq)

lemma processAlert_resolved_untracked:
  "Status alert = ''resolved'' \<Longrightarrow> fst (getAlertID e (Fingerprint alert) w) = Inl ErrKeyNotFound \<Longrightarrow>
     processAlert config e alert w =
       (None, w\<lparr>trace := trace w @ [DbGet (dbKey (Fingerprint alert))]\<rparr>)"
  by (simp add: processAlert_eq)

lemma processAlert_resolved_tracked:
  "Status alert = ''resolved'' \<Longrightarrow> fst (getAlertID e (Fingerprint alert) w) = Inr alertID \<Longrightarrow>
     processAlert config e alert w =
       resolveAlert config e alertID alert
         (w\<lparr>trace := trace w @ [DbGet (dbKey (Fingerprint alert))]\<rparr>)"
  by (simp add: processAlert_eq)

text \<open>
  Every run of \<^verbatim>\<open>processAlert\<close> has one of three shapes: the lookup alone; the lookup and
  one remote call; the lookup, one remote call that succeeded, and one write to the index.
\<close>

lemma processAlert_shape:
  assumes run: "processAlert config e alert w = (r, w')"
  shows "\<exists>evs. trace w' = trace w @ DbGet (dbKey (Fingerprint alert)) # evs \<and>
      (evs = [] \<and> store w' = store w
       \<or> (\<exists>c. evs = [Call c] \<and> store w' = store w \<and>
             (call_error c (http e (Suc (length (trace w)))) \<noteq> None \<longrightarrow> r \<noteq> None))
       \<or> (\<exists>c m. evs = [Call c, m] \<and> is_mutation m \<and>
             call_error c (http e (Suc (length (trace w)))) = None))"
  using run
  by (auto simp: processAlert_eq createAlert_eq updateAlert_eq resolveAlert_eq Let_def
      split: sum.splits option.splits if_splits)

lemma tracked_lookup:
  "fst (getAlertID env_ok (Fingerprint (alert_DiskFull status)) world_tracked) = Inr 7"
  by (simp add: getAlertID_def env_ok_def world_tracked_def alert_DiskFull_def dbKey_def Atoi_def
      is_digit_def parse_digits_def digit_val_def Let_def)


section \<open>The remote case client: when a call returns an error\<close>

text \<open>
  Claim C6, as amended. A remote call returns an error if and only if the request cannot be
  built, the transport fails (sending the request or reading the response body), the HTTP
  status code is 400 or above, the response body fails to parse, or the status field of the
  parsed envelope is not \<^verbatim>\<open>"success"\<close>; a create call also returns an error when the
  \<^verbatim>\<open>data\<close> field of a successful envelope does not decode. In every other case the call
  succeeds: a status code below 400 that is not 2xx, such as 300, is no error by itself.
\<close>

theorem remote_call_error_iff:
  "(isl (do_request out) \<longleftrightarrow>
      out = NewRequestFailed \<or> out = DoFailed \<or> out = ReadAllFailed \<or>
      (\<exists>code parsed. out = Response code parsed \<and>
         (400 \<le> code \<or> parsed = None \<or>
          (\<exists>resp. parsed = Some resp \<and> resp_status resp \<noteq> ''success'')))) \<and>
   (isl (CreateAlert req out) \<longleftrightarrow>
      isl (do_request out) \<or>
      (\<exists>code resp. out = Response code (Some resp) \<and> resp_data resp = None)) \<and>
   (UpdateAlert alertID upd out \<noteq> None \<longleftrightarrow> isl (do_request out)) \<and>
   (DeleteAlert alertID out \<noteq> None \<longleftrightarrow> isl (do_request out))"
  by (cases out)
    (auto simp: CreateAlert_def UpdateAlert_def DeleteAlert_def split: option.splits sum.splits)

text \<open>
  The theorem at two exchanges: a 500 response makes the update call fail, a 200 response
  with a success envelope lets it succeed.
\<close>

theorem remote_call_error_iff_witness:
  "UpdateAlert 7 empty_update (Response 500 None) \<noteq> None \<and>
   UpdateAlert 7 empty_update (success_response 7) = None"
  using remote_call_error_iff [where out = "Response 500 None" and alertID = 7 and upd = empty_update]
    remote_call_error_iff [where out = "success_response 7" and alertID = 7 and upd = empty_update]
  by (simp add: success_response_def)

text \<open>
  Claim C6 as the specification states it fails: a response with status 300 whose body is
  a success envelope is not 2xx, so the specification calls it an error, yet \<^verbatim>\<open>do\<close> only
  rejects status codes of 400 and above and every operation of the client succeeds.
\<close>

theorem remote_call_error_counterexample:
  "spec_call_error multiple_choices \<and>
   do_request multiple_choices =
     Inr \<lparr>resp_status = ''success'', resp_data = Some 7, resp_message = []\<rparr> \<and>
   CreateAlert (create_request config_update (alert_DiskFull ''firing'')) multiple_choices = Inr 7 \<and>
   UpdateAlert 7 (resolve_request config_update) multiple_choices = None \<and>
   DeleteAlert 7 multiple_choices = None"
  by (simp add: spec_call_error_def multiple_choices_def CreateAlert_def UpdateAlert_def
      DeleteAlert_def)


section \<open>Severity and description mapping: the claims\<close>

lemma foldl_add:
  "foldl (\<lambda>ls (label, val). add label val ls) lines fs = lines @ emitted_lines fs"
  by (induction fs arbitrary: lines) (auto simp: add_def emitted_lines_def)

lemma alertDescription_foldl:
  "alertDescription alert =
     Join (foldl (\<lambda>ls (label, val). add label val ls) [] (recognized_fields alert)) [CHR 0x0A]"
  by (simp add: alertDescription_def recognized_fields_def Let_def)

lemma Join_snoc: "\<exists>p. Join (ls @ [l]) sep = p @ l"
  by (induction ls sep rule: Join.induct) auto

lemma Join_ends_with_last: "ls \<noteq> [] \<Longrightarrow> \<exists>p. Join ls sep = p @ last ls"
  using Join_snoc [of "butlast ls" "last ls" sep] by simp

lemma emitted_last:
  assumes "emitted_lines fs \<noteq> []"
  shows "\<exists>label val. (label, val) \<in> set fs \<and> val \<noteq> [] \<and>
           last (emitted_lines fs) = label @ '': '' @ val"
proof -
  from assms have "last (emitted_lines fs) \<in> set (emitted_lines fs)" by simp
  then show ?thesis by (auto simp: emitted_lines_def)
qed

text \<open>
  Claim C7. The description is the emitted lines of the recognized fields, taken in the
  fixed order (alert name, severity, description, summary, hostname, instance, service,
  group, tier, load, start time, fingerprint, generator URL), each line being the field's
  literal label, \<^verbatim>\<open>": "\<close> and the value, and a field being emitted exactly when its value
  is not empty; the lines are joined by single newlines. Nothing follows the last line: the
  description is empty or ends with the line of an emitted field. For the alert with labels
  \<^verbatim>\<open>{alertname: "X", severity: "warning"}\<close> and nothing else the description is
  \<^verbatim>\<open>"Alert: X\nSeverity: warning"\<close>.
\<close>

theorem alertDescription_lines:
  "alertDescription alert = Join (emitted_lines (recognized_fields alert)) [CHR 0x0A] \<and>
   (alertDescription alert = [] \<or>
    (\<exists>p label val. (label, val) \<in> set (recognized_fields alert) \<and> val \<noteq> [] \<and>
       alertDescription alert = p @ label @ '': '' @ val)) \<and>
   alertDescription alert_X = ''Alert: X'' @ [CHR 0x0A] @ ''Severity: warning''"
proof -
  have eq: "alertDescription alert = Join (emitted_lines (recognized_fields alert)) [CHR 0x0A]"
    by (simp add: alertDescription_foldl foldl_add)
  have ends: "alertDescription alert = [] \<or>
    (\<exists>p label val. (label, val) \<in> set (recognized_fields alert) \<and> val \<noteq> [] \<and>
       alertDescription alert = p @ label @ '': '' @ val)"
  proof (cases "emitted_lines (recognized_fields alert) = []")
    case True
    then show ?thesis by (simp add: eq)
  next
    case False
    from emitted_last [OF False] obtain label val where
      lv: "(label, val) \<in> set (recognized_fields alert)" "val \<noteq> []"
        "last (emitted_lines (recognized_fields alert)) = label @ '': '' @ val"
      by blast
    from Join_ends_with_last [OF False, of "[CHR 0x0A]"] obtain p where
      "Join (emitted_lines (recognized_fields alert)) [CHR 0x0A] =
         p @ last (emitted_lines (recognized_fields alert))"
      by blast
    with lv eq show ?thesis by auto
  qed
  have ex: "alertDescription alert_X = ''Alert: X'' @ [CHR 0x0A] @ ''Severity: warning''"
    by (simp add: alertDescription_def alert_X_def add_def index_str_def Let_def)
  from eq ends ex show ?thesis by blast
qed

text \<open>
  The theorem at the alert of the scenario: name, start time and fingerprint are emitted,
  in this order, and the empty fields between them are left out.
\<close>

theorem alertDescription_lines_witness:
  "alertDescription (alert_DiskFull ''firing'') =
     ''Alert: DiskFull'' @ [CHR 0x0A] @ ''Started At: 2024-01-01T00:00:00Z'' @ [CHR 0x0A] @
     ''Fingerprint: abc123''"
  using alertDescription_lines [of "alert_DiskFull ''firing''"]
  by (simp add: recognized_fields_def emitted_lines_def alert_DiskFull_def index_str_def)

text \<open>
  Claim C8. The severity mapping is a total function returning a code, never an error: when
  the alert has a \<^verbatim>\<open>severity\<close> label whose value is a key of the configured table, it
  returns the code the table gives; when the label is absent, or its value is not a key of
  the table, it returns the configured default severity code.
\<close>

theorem severityID_table:
  "(\<forall>sev code. Labels alert ''severity'' = Some sev \<and> SeverityMap config sev = Some code
      \<longrightarrow> severityID config alert = code) \<and>
   (Labels alert ''severity'' = None \<or>
    (\<exists>sev. Labels alert ''severity'' = Some sev \<and> SeverityMap config sev = None)
      \<longrightarrow> severityID config alert = DefaultSeverityID config)"
  by (auto simp: severityID_def)

text \<open>
  The theorem at the examples of the specification: \<^verbatim>\<open>critical\<close> is mapped to 6, an
  unmapped value and a missing label give the default 4.
\<close>

theorem severityID_table_witness:
  "severityID config_update
     ((alert_DiskFull ''firing'') \<lparr> Labels := [''severity'' \<mapsto> ''critical''] \<rparr>) = 6 \<and>
   severityID config_update
     ((alert_DiskFull ''firing'') \<lparr> Labels := [''severity'' \<mapsto> ''page''] \<rparr>) = 4 \<and>
   severityID config_update (alert_DiskFull ''firing'') = 4"
proof -
  have "severityID config_update
      ((alert_DiskFull ''firing'') \<lparr> Labels := [''severity'' \<mapsto> ''critical''] \<rparr>) = 6"
    using severityID_table
      [of "(alert_DiskFull ''firing'') \<lparr> Labels := [''severity'' \<mapsto> ''critical''] \<rparr>" config_update]
    by (simp add: config_update_def)
  moreover have "severityID config_update
      ((alert_DiskFull ''firing'') \<lparr> Labels := [''severity'' \<mapsto> ''page''] \<rparr>) = 4"
    using severityID_table
      [of "(alert_DiskFull ''firing'') \<lparr> Labels := [''severity'' \<mapsto> ''page''] \<rparr>" config_update]
    by (simp add: config_update_def)
  moreover have "severityID config_update (alert_DiskFull ''firing'') = 4"
    using severityID_table [of "alert_DiskFull ''firing''" config_update]
    by (simp add: config_update_def alert_DiskFull_def)
  ultimately show ?thesis by blast
qed


section \<open>The reconciler: firing alerts\<close>

text \<open>
  In the claims about \<^verbatim>\<open>processAlert\<close>, that a fingerprint has no entry in the index, or
  has an entry with case id \<open>alertID\<close>, is what the lookup of the handler reports:
  \<open>getAlertID\<close> answers \<^verbatim>\<open>badger.ErrKeyNotFound\<close>, or answers \<open>alertID\<close>. The lookup is
  interaction \<open>length (trace w)\<close> of the run, the remote call is the next one, and the write
  to the index the one after.
\<close>

text \<open>
  Claim C1, as amended. For every alert whose status is \<^verbatim>\<open>"firing"\<close> and whose fingerprint
  has no entry in the index, processing the alert issues exactly one remote call, a create
  call (no update, no delete). When that call succeeds and the write to the index that
  follows it succeeds, processing returns no error and the index gains exactly one entry,
  which maps the fingerprint to the decimal encoding of the case id the create call
  returned; a later lookup that the store answers reads that case id back. When the call or
  the write fails, processing returns an error and the index is left as it was.
\<close>

theorem firing_untracked_creates:
  assumes firing: "Status alert = ''firing''"
      and untracked: "fst (getAlertID e (Fingerprint alert) w) = Inl ErrKeyNotFound"
      and run: "processAlert config e alert w = (r, w')"
  shows "remote_calls (new_events w w') = [Create (create_request config alert)] \<and>
         (\<forall>alertID.
            CreateAlert (create_request config alert) (http e (Suc (length (trace w)))) = Inr alertID \<and>
            \<not> db_fault e (Suc (Suc (length (trace w)))) \<longrightarrow>
              r = None \<and>
              store w (dbKey (Fingerprint alert)) = None \<and>
              store w' = (store w)(dbKey (Fingerprint alert) \<mapsto> Itoa alertID) \<and>
              (- (2 ^ 63) \<le> alertID \<and> alertID < 2 ^ 63 \<and> \<not> db_fault e (length (trace w')) \<longrightarrow>
                 fst (getAlertID e (Fingerprint alert) w') = Inr alertID)) \<and>
         (isl (CreateAlert (create_request config alert) (http e (Suc (length (trace w))))) \<or>
          db_fault e (Suc (Suc (length (trace w)))) \<longrightarrow>
            r \<noteq> None \<and> store w' = store w)"
proof -
  from untracked have absent: "store w (dbKey (Fingerprint alert)) = None"
    by (simp add: getAlertID_not_found)
  from run have "createAlert config e alert
      (w\<lparr>trace := trace w @ [DbGet (dbKey (Fingerprint alert))]\<rparr>) = (r, w')"
    by (simp add: processAlert_firing_untracked [OF firing untracked])
  with absent show ?thesis
    by (auto simp: createAlert_eq new_events_def getAlertID_eq Atoi_Itoa
        split: sum.splits if_splits)
qed

text \<open>
  The theorem at the scenario of the specification: fingerprint \<^verbatim>\<open>abc123\<close>, alert name
  \<^verbatim>\<open>DiskFull\<close>, an empty index, a remote that answers with case id 7. One create call with
  title and tag \<^verbatim>\<open>DiskFull\<close> is issued and the index then maps the fingerprint to 7.
\<close>

theorem firing_untracked_creates_witness:
  "remote_calls (new_events world_empty
      (snd (processAlert config_update env_ok (alert_DiskFull ''firing'') world_empty)))
     = [Create (create_request config_update (alert_DiskFull ''firing''))] \<and>
   alert_title (create_request config_update (alert_DiskFull ''firing'')) = ''DiskFull'' \<and>
   alert_tags (create_request config_update (alert_DiskFull ''firing'')) = ''DiskFull'' \<and>
   fst (processAlert config_update env_ok (alert_DiskFull ''firing'') world_empty) = None \<and>
   store (snd (processAlert config_update env_ok (alert_DiskFull ''firing'') world_empty))
     = [''fp:abc123'' \<mapsto> ''7'']"
proof -
  have firing: "Status (alert_DiskFull ''firing'') = ''firing''"
    by (simp add: alert_DiskFull_def)
  have untracked:
    "fst (getAlertID env_ok (Fingerprint (alert_DiskFull ''firing'')) world_empty) = Inl ErrKeyNotFound"
    by (simp add: getAlertID_def env_ok_def world_empty_def Let_def)
  have created:
    "CreateAlert (create_request config_update (alert_DiskFull ''firing''))
       (http env_ok (Suc (length (trace world_empty)))) = Inr 7"
    by (simp add: CreateAlert_def env_ok_def success_response_def)
  have healthy: "\<not> db_fault env_ok (Suc (Suc (length (trace world_empty))))"
    by (simp add: env_ok_def)
  have key: "dbKey (Fingerprint (alert_DiskFull ''firing'')) = ''fp:abc123''"
    by (simp add: dbKey_def alert_DiskFull_def)
  have title: "alert_title (create_request config_update (alert_DiskFull ''firing'')) = ''DiskFull''"
    "alert_tags (create_request config_update (alert_DiskFull ''firing'')) = ''DiskFull''"
    by (simp_all add: create_request_def alert_DiskFull_def index_str_def)
  have empty: "store world_empty = Map.empty"
    by (simp add: world_empty_def)
  from firing_untracked_creates [OF firing untracked surjective_pairing, of config_update]
    created healthy
  have "remote_calls (new_events world_empty
      (snd (processAlert config_update env_ok (alert_DiskFull ''firing'') world_empty)))
     = [Create (create_request config_update (alert_DiskFull ''firing''))] \<and>
    fst (processAlert config_update env_ok (alert_DiskFull ''firing'') world_empty) = None \<and>
    store (snd (processAlert config_update env_ok (alert_DiskFull ''firing'') world_empty))
     = (store world_empty)(dbKey (Fingerprint (alert_DiskFull ''firing'')) \<mapsto> Itoa 7)"
    by blast
  with key Itoa_7 title empty show ?thesis
    by simp
qed

text \<open>
  Claim C1 as stated fails when the write to the index fails: in the same scenario, with a
  store that rejects the write (interaction 2), the create call succeeds with case id 7 and
  the index gains no entry; \<^verbatim>\<open>createAlert\<close> returns the error of the store.
\<close>

theorem firing_untracked_counterexample:
  "Status (alert_DiskFull ''firing'') = ''firing'' \<and>
   fst (getAlertID env_store_fails (Fingerprint (alert_DiskFull ''firing'')) world_empty)
     = Inl ErrKeyNotFound \<and>
   CreateAlert (create_request config_update (alert_DiskFull ''firing''))
     (http env_store_fails 1) = Inr 7 \<and>
   fst (processAlert config_update env_store_fails (alert_DiskFull ''firing'') world_empty)
     = Some (Wrap ''store alert mapping'' ErrBadger) \<and>
   store (snd (processAlert config_update env_store_fails (alert_DiskFull ''firing'') world_empty))
     = store world_empty"
  by (simp add: processAlert_eq createAlert_eq getAlertID_eq alert_DiskFull_def world_empty_def
      env_store_fails_def success_response_def CreateAlert_def Let_def)

text \<open>
  Claim C2, as amended. For every alert whose status is \<^verbatim>\<open>"firing"\<close> and whose fingerprint
  has an index entry with case id \<open>alertID\<close>, processing the alert issues exactly one
  remote call, an update call addressed to \<open>alertID\<close> (never a create), and leaves the
  index as it was. More generally, a run of \<^verbatim>\<open>processAlert\<close> that no other request interleaves
  with never replaces the value of an existing index entry by a different one: a key that
  has a value before and after the run has the same value.
\<close>

theorem firing_tracked_updates:
  "(Status alert = ''firing'' \<and> fst (getAlertID e (Fingerprint alert) w) = Inr alertID \<longrightarrow>
      remote_calls (new_events w (snd (processAlert config e alert w)))
        = [Update alertID (update_request config alert)] \<and>
      store (snd (processAlert config e alert w)) = store w) \<and>
   (\<forall>k v v'. store w k = Some v \<and> store (snd (processAlert config e alert w)) k = Some v'
      \<longrightarrow> v' = v)"
proof -
  have tracked: "Status alert = ''firing'' \<and> fst (getAlertID e (Fingerprint alert) w) = Inr alertID \<longrightarrow>
      remote_calls (new_events w (snd (processAlert config e alert w)))
        = [Update alertID (update_request config alert)] \<and>
      store (snd (processAlert config e alert w)) = store w"
    by (auto simp: processAlert_firing_tracked updateAlert_eq new_events_def)
  have keep: "\<And>k v v'. store w k = Some v \<Longrightarrow>
      store (snd (processAlert config e alert w)) k = Some v' \<Longrightarrow> v' = v"
    by (auto simp: processAlert_eq createAlert_eq updateAlert_eq resolveAlert_eq Let_def
        getAlertID_not_found
        split: sum.splits option.splits if_splits)
  from tracked keep show ?thesis by blast
qed

text \<open>
  The theorem at the scenario with the fingerprint already mapped to case 7: one update
  call for case 7, the index unchanged.
\<close>

theorem firing_tracked_updates_witness:
  "remote_calls (new_events world_tracked
      (snd (processAlert config_update env_ok (alert_DiskFull ''firing'') world_tracked)))
     = [Update 7 (update_request config_update (alert_DiskFull ''firing''))] \<and>
   store (snd (processAlert config_update env_ok (alert_DiskFull ''firing'') world_tracked))
     = store world_tracked"
proof -
  have firing: "Status (alert_DiskFull ''firing'') = ''firing''"
    by (simp add: alert_DiskFull_def)
  from firing_tracked_updates [of "alert_DiskFull ''firing''" env_ok world_tracked 7 config_update]
    firing tracked_lookup
  show ?thesis by simp
qed

text \<open>
  One request alone, for a firing alert whose fingerprint the lookup does not find, is the
  lookup, the create call and the write to the index, in this order.
\<close>

lemma processAlert_firing_steps:
  assumes "Status alert = ''firing''"
      and "fst (getAlertID e (Fingerprint alert) w) = Inl ErrKeyNotFound"
  shows "processAlert config e alert w =
     (case getAlertID e (Fingerprint alert) w of (res, w1) \<Rightarrow>
      case exchange e (Create (create_request config alert)) w1 of (out, w2) \<Rightarrow>
        (case CreateAlert (create_request config alert) out of
           Inl er \<Rightarrow> (Some (Wrap ''create iris alert'' er), w2)
         | Inr alertID \<Rightarrow>
             (case storeAlertID e (Fingerprint alert) alertID w2 of
                (Some er, w3) \<Rightarrow> (Some (Wrap ''store alert mapping'' er), w3)
              | (None, w3) \<Rightarrow> (None, w3))))"
  using assms
  by (simp add: processAlert_firing_untracked createAlert_def getAlertID_eq Let_def
      split: prod.splits)

text \<open>
  Claim C2 as stated fails for requests that run at once: the lookup and the write of
  \<^verbatim>\<open>createAlert\<close> are separate transactions with the remote call between them, and the write
  is unconditional. Two requests with the same firing alert for the new fingerprint
  \<^verbatim>\<open>abc123\<close> both find no entry and both create a case; the first write maps the fingerprint
  to case 7, the second write replaces that entry by case 8.
\<close>

theorem firing_tracked_counterexample:
  "two_firing_requests config_update env_two_cases (alert_DiskFull ''firing'') world_empty =
     Some
       (\<lparr> store = [''fp:abc123'' \<mapsto> ''7''],
          trace = [DbGet ''fp:abc123'', DbGet ''fp:abc123'',
                   Call (Create (create_request config_update (alert_DiskFull ''firing''))),
                   Call (Create (create_request config_update (alert_DiskFull ''firing''))),
                   DbSet ''fp:abc123'' ''7''] \<rparr>,
        \<lparr> store = [''fp:abc123'' \<mapsto> ''8''],
          trace = [DbGet ''fp:abc123'', DbGet ''fp:abc123'',
                   Call (Create (create_request config_update (alert_DiskFull ''firing''))),
                   Call (Create (create_request config_update (alert_DiskFull ''firing''))),
                   DbSet ''fp:abc123'' ''7'', DbSet ''fp:abc123'' ''8''] \<rparr>)"
  by (simp add: two_firing_requests_def getAlertID_eq exchange_def storeAlertID_def
      record_event_def CreateAlert_def env_two_cases_def success_response_def
      alert_DiskFull_def world_empty_def dbKey_def Itoa_7 Itoa_8 Let_def)


section \<open>The reconciler: resolved alerts\<close>

text \<open>
  Claim C3, as amended. For every alert whose status is \<^verbatim>\<open>"resolved"\<close> and whose
  fingerprint has an index entry with case id \<open>alertID\<close>, processing the alert issues
  exactly one remote call, addressed to \<open>alertID\<close>: a delete call when the configured
  action is \<^verbatim>\<open>"delete"\<close>, otherwise an update call that sets only the status field, to the
  configured resolved status code. When that call succeeds and the delete on the index that
  follows it succeeds, processing returns no error and the entry of the fingerprint is
  removed. When the call returns an error, or the delete on the index fails, processing
  returns an error and the index, the entry included, is left as it was.
\<close>

theorem resolved_tracked_resolves:
  assumes resolved: "Status alert = ''resolved''"
      and tracked: "fst (getAlertID e (Fingerprint alert) w) = Inr alertID"
      and run: "processAlert config e alert w = (r, w')"
  shows "let call = (if ResolvedAction config = ''delete'' then Delete alertID
                     else Update alertID
                       (empty_update \<lparr> upd_status_id := Some (StatusIDResolved config) \<rparr>))
         in remote_calls (new_events w w') = [call] \<and>
            (call_error call (http e (Suc (length (trace w)))) = None \<and>
             \<not> db_fault e (Suc (Suc (length (trace w)))) \<longrightarrow>
               r = None \<and> store w' = (store w)(dbKey (Fingerprint alert) := None)) \<and>
            (call_error call (http e (Suc (length (trace w)))) \<noteq> None \<or>
             db_fault e (Suc (Suc (length (trace w)))) \<longrightarrow>
               r \<noteq> None \<and> store w' = store w)"
proof -
  from run have "resolveAlert config e alertID alert
      (w\<lparr>trace := trace w @ [DbGet (dbKey (Fingerprint alert))]\<rparr>) = (r, w')"
    by (simp add: processAlert_resolved_tracked [OF resolved tracked])
  then show ?thesis
    by (auto simp: resolveAlert_eq new_events_def resolve_call_def resolve_request_def Let_def
        split: option.splits if_splits)
qed

text \<open>
  The theorem at the second step of the specification's scenario: the fingerprint is mapped
  to case 7, the action is \<^verbatim>\<open>"delete"\<close>, the remote answers with success. One delete call
  for case 7 is issued and the index no longer contains the fingerprint.
\<close>

theorem resolved_tracked_resolves_witness:
  "remote_calls (new_events world_tracked
      (snd (processAlert config_delete env_ok (alert_DiskFull ''resolved'') world_tracked)))
     = [Delete 7] \<and>
   fst (processAlert config_delete env_ok (alert_DiskFull ''resolved'') world_tracked) = None \<and>
   store (snd (processAlert config_delete env_ok (alert_DiskFull ''resolved'') world_tracked))
     = Map.empty"
proof -
  have resolved: "Status (alert_DiskFull ''resolved'') = ''resolved''"
    by (simp add: alert_DiskFull_def)
  have ok: "call_error (Delete 7) (http env_ok (Suc (length (trace world_tracked)))) = None"
    by (simp add: DeleteAlert_def env_ok_def success_response_def)
  have healthy: "\<not> db_fault env_ok (Suc (Suc (length (trace world_tracked))))"
    by (simp add: env_ok_def)
  have key: "dbKey (Fingerprint (alert_DiskFull ''resolved'')) = ''fp:abc123''"
    by (simp add: dbKey_def alert_DiskFull_def)
  have action: "ResolvedAction config_delete = ''delete''"
    by (simp add: config_delete_def)
  have st: "store world_tracked = [''fp:abc123'' \<mapsto> ''7'']"
    by (simp add: world_tracked_def)
  from resolved_tracked_resolves [OF resolved tracked_lookup surjective_pairing, of config_delete]
    action ok healthy
  have "remote_calls (new_events world_tracked
      (snd (processAlert config_delete env_ok (alert_DiskFull ''resolved'') world_tracked)))
     = [Delete 7] \<and>
    fst (processAlert config_delete env_ok (alert_DiskFull ''resolved'') world_tracked) = None \<and>
    store (snd (processAlert config_delete env_ok (alert_DiskFull ''resolved'') world_tracked))
     = (store world_tracked)(dbKey (Fingerprint (alert_DiskFull ''resolved'')) := None)"
    by (simp add: Let_def)
  with key st show ?thesis
    by simp
qed

text \<open>
  Claim C3 as stated fails when the remote call fails: with the fingerprint mapped to case
  7, the action \<^verbatim>\<open>"delete"\<close> and a remote that answers 500, one delete call is issued and
  the index entry is still there afterwards.
\<close>

theorem resolved_tracked_counterexample:
  "Status (alert_DiskFull ''resolved'') = ''resolved'' \<and>
   fst (getAlertID env_remote_down (Fingerprint (alert_DiskFull ''resolved'')) world_tracked) = Inr 7 \<and>
   remote_calls (new_events world_tracked
      (snd (processAlert config_delete env_remote_down (alert_DiskFull ''resolved'') world_tracked)))
     = [Delete 7] \<and>
   store (snd (processAlert config_delete env_remote_down (alert_DiskFull ''resolved'') world_tracked))
      (dbKey (Fingerprint (alert_DiskFull ''resolved''))) = Some ''7''"
  by (simp add: processAlert_eq resolveAlert_eq getAlertID_eq resolve_call_def new_events_def
      alert_DiskFull_def world_tracked_def env_remote_down_def config_delete_def config_update_def
      DeleteAlert_def dbKey_def Atoi_def is_digit_def parse_digits_def digit_val_def Let_def)

text \<open>
  Claim C4. For every alert whose status is \<^verbatim>\<open>"resolved"\<close> and whose fingerprint has no
  index entry, processing the alert returns no error, issues no remote call, attempts no
  write to the index and leaves the index as it was. Hence resolution is idempotent: after a
  \<^verbatim>\<open>"resolved"\<close> notification has been processed without error, the index holds no entry
  for its fingerprint, the lookup of a replay (when the store answers it) reports none, and
  processing the same notification again is such a no-op.
\<close>

theorem resolved_untracked_noop:
  "(Status alert = ''resolved'' \<and> fst (getAlertID e (Fingerprint alert) w) = Inl ErrKeyNotFound \<longrightarrow>
      fst (processAlert config e alert w) = None \<and>
      remote_calls (new_events w (snd (processAlert config e alert w))) = [] \<and>
      filter is_mutation (new_events w (snd (processAlert config e alert w))) = [] \<and>
      store (snd (processAlert config e alert w)) = store w) \<and>
   (Status alert = ''resolved'' \<and> processAlert config e alert w = (None, w1) \<and>
    \<not> db_fault e (length (trace w1)) \<longrightarrow>
      store w1 (dbKey (Fingerprint alert)) = None \<and>
      fst (getAlertID e (Fingerprint alert) w1) = Inl ErrKeyNotFound \<and>
      fst (processAlert config e alert w1) = None \<and>
      remote_calls (new_events w1 (snd (processAlert config e alert w1))) = [] \<and>
      filter is_mutation (new_events w1 (snd (processAlert config e alert w1))) = [] \<and>
      store (snd (processAlert config e alert w1)) = store w1)"
proof -
  have noop: "fst (processAlert config e alert v) = None \<and>
      remote_calls (new_events v (snd (processAlert config e alert v))) = [] \<and>
      filter is_mutation (new_events v (snd (processAlert config e alert v))) = [] \<and>
      store (snd (processAlert config e alert v)) = store v"
    if "Status alert = ''resolved''" "fst (getAlertID e (Fingerprint alert) v) = Inl ErrKeyNotFound"
    for v
    using that by (simp add: processAlert_resolved_untracked new_events_def)
  have gone: "store w1 (dbKey (Fingerprint alert)) = None"
    if "Status alert = ''resolved''" "processAlert config e alert w = (None, w1)"
    using that
    by (auto simp: processAlert_eq resolveAlert_eq getAlertID_not_found Let_def
        split: sum.splits option.splits if_splits)
  have again: "fst (getAlertID e (Fingerprint alert) w1) = Inl ErrKeyNotFound"
    if "Status alert = ''resolved''" "processAlert config e alert w = (None, w1)"
      "\<not> db_fault e (length (trace w1))"
    using that gone by (simp add: getAlertID_not_found)
  from noop gone again show ?thesis by blast
qed

text \<open>
  The theorem at the scenario: a \<^verbatim>\<open>"resolved"\<close> notification on the empty index is a no-op,
  and so is the replay of the notification that resolved case 7.
\<close>

theorem resolved_untracked_noop_witness:
  "fst (processAlert config_delete env_ok (alert_DiskFull ''resolved'') world_empty) = None \<and>
   remote_calls (new_events world_empty
     (snd (processAlert config_delete env_ok (alert_DiskFull ''resolved'') world_empty))) = [] \<and>
   store (snd (processAlert config_delete env_ok (alert_DiskFull ''resolved'') world_empty))
     = store world_empty \<and>
   fst (processAlert config_delete env_ok (alert_DiskFull ''resolved'') world_tracked) = None \<and>
   fst (processAlert config_delete env_ok (alert_DiskFull ''resolved'')
     (snd (processAlert config_delete env_ok (alert_DiskFull ''resolved'') world_tracked))) = None \<and>
   remote_calls (new_events
     (snd (processAlert config_delete env_ok (alert_DiskFull ''resolved'') world_tracked))
     (snd (processAlert config_delete env_ok (alert_DiskFull ''resolved'')
       (snd (processAlert config_delete env_ok (alert_DiskFull ''resolved'') world_tracked))))) = []"
proof -
  let ?a = "alert_DiskFull ''resolved''"
  let ?w1 = "snd (processAlert config_delete env_ok ?a world_tracked)"
  have resolved: "Status ?a = ''resolved''"
    by (simp add: alert_DiskFull_def)
  have untracked: "fst (getAlertID env_ok (Fingerprint ?a) world_empty) = Inl ErrKeyNotFound"
    by (simp add: getAlertID_eq env_ok_def world_empty_def)
  have first: "fst (processAlert config_delete env_ok ?a world_tracked) = None"
    unfolding processAlert_resolved_tracked [OF resolved tracked_lookup]
    by (simp add: resolveAlert_eq resolve_call_def config_delete_def config_update_def
        DeleteAlert_def env_ok_def success_response_def)
  then have run: "processAlert config_delete env_ok ?a world_tracked = (None, ?w1)"
    by (simp add: prod_eq_iff)
  have healthy: "\<not> db_fault env_ok (length (trace ?w1))"
    by (simp add: env_ok_def)
  note th = resolved_untracked_noop [where config = config_delete and e = env_ok and alert = ?a]
  from th [of world_empty] resolved untracked
  have a: "fst (processAlert config_delete env_ok ?a world_empty) = None \<and>
      remote_calls (new_events world_empty (snd (processAlert config_delete env_ok ?a world_empty))) = [] \<and>
      store (snd (processAlert config_delete env_ok ?a world_empty)) = store world_empty"
    by blast
  from th [of world_tracked ?w1] resolved run healthy
  have b: "fst (processAlert config_delete env_ok ?a ?w1) = None \<and>
      remote_calls (new_events ?w1 (snd (processAlert config_delete env_ok ?a ?w1))) = []"
    by blast
  from a b first show ?thesis by blast
qed


section \<open>The reconciler: the remote call comes first\<close>

text \<open>
  Claim C5. Within the processing of a single alert the remote call completes successfully
  before the index is written: every write to the index (a set or a delete) that the run
  attempts comes after a remote call of the same run that returned no error. If a remote
  call of the run (create, update or delete) returns an error, processing returns an error,
  attempts no write to the index and leaves the index exactly as it was before the alert.
  The index only changes through such a write.
\<close>

theorem remote_call_precedes_index_mutation:
  assumes run: "processAlert config e alert w = (r, w')"
  shows "(\<forall>i. i < length (new_events w w') \<and> is_mutation (new_events w w' ! i) \<longrightarrow>
            (\<exists>j c. j < i \<and> new_events w w' ! j = Call c \<and>
               call_error c (http e (length (trace w) + j)) = None)) \<and>
         (\<forall>j c. j < length (new_events w w') \<and> new_events w w' ! j = Call c \<and>
               call_error c (http e (length (trace w) + j)) \<noteq> None \<longrightarrow>
            r \<noteq> None \<and> store w' = store w \<and> filter is_mutation (new_events w w') = []) \<and>
         (store w' \<noteq> store w \<longrightarrow> filter is_mutation (new_events w w') \<noteq> [])"
proof -
  from processAlert_shape [OF run] obtain evs where
    tr: "trace w' = trace w @ DbGet (dbKey (Fingerprint alert)) # evs" and
    sh: "evs = [] \<and> store w' = store w
       \<or> (\<exists>c. evs = [Call c] \<and> store w' = store w \<and>
             (call_error c (http e (Suc (length (trace w)))) \<noteq> None \<longrightarrow> r \<noteq> None))
       \<or> (\<exists>c m. evs = [Call c, m] \<and> is_mutation m \<and>
             call_error c (http e (Suc (length (trace w)))) = None)"
    by blast
  from tr have new: "new_events w w' = DbGet (dbKey (Fingerprint alert)) # evs"
    by (simp add: new_events_def)
  from sh show ?thesis
  proof (elim disjE conjE exE)
    assume "evs = []" "store w' = store w"
    then show ?thesis by (auto simp: new less_Suc_eq nth_Cons')
  next
    fix c
    assume evs: "evs = [Call c]" and same: "store w' = store w"
      and err: "call_error c (http e (Suc (length (trace w)))) \<noteq> None \<longrightarrow> r \<noteq> None"
    have a: "\<not> is_mutation (new_events w w' ! i)" if "i < length (new_events w w')" for i
      using that by (auto simp: new evs less_Suc_eq nth_Cons')
    have b: "r \<noteq> None \<and> store w' = store w \<and> filter is_mutation (new_events w w') = []"
      if "j < length (new_events w w')" "new_events w w' ! j = Call ca"
        "call_error ca (http e (length (trace w) + j)) \<noteq> None" for j ca
    proof -
      from that(1,2) have "j = 1 \<and> ca = c"
        by (auto simp: new evs less_Suc_eq nth_Cons' split: if_splits)
      with that(3) err same show ?thesis by (simp add: new evs)
    qed
    from a b same show ?thesis by blast
  next
    fix c m
    assume evs: "evs = [Call c, m]" and m: "is_mutation m"
      and ok: "call_error c (http e (Suc (length (trace w)))) = None"
    have a: "\<exists>j ca. j < i \<and> new_events w w' ! j = Call ca \<and>
               call_error ca (http e (length (trace w) + j)) = None"
      if "i < length (new_events w w')" "is_mutation (new_events w w' ! i)" for i
    proof -
      from that have "i = 2"
        by (auto simp: new evs less_Suc_eq nth_Cons' numeral_2_eq_2 split: if_splits)
      with ok show ?thesis
        by (intro exI [of _ 1] exI [of _ c]) (simp add: new evs)
    qed
    have b: "r \<noteq> None \<and> store w' = store w \<and> filter is_mutation (new_events w w') = []"
      if "j < length (new_events w w')" "new_events w w' ! j = Call ca"
        "call_error ca (http e (length (trace w) + j)) \<noteq> None" for j ca
    proof -
      from that(1,2) m have "j = 1 \<and> ca = c"
        by (cases m) (auto simp: new evs less_Suc_eq nth_Cons' split: if_splits)
      with that(3) ok show ?thesis by simp
    qed
    have c: "filter is_mutation (new_events w w') \<noteq> []"
      using m by (simp add: new evs)
    from a b c show ?thesis by blast
  qed
qed

text \<open>
  The theorem at a failing create: the remote answers 500 to the create call for a new
  fingerprint; processing returns an error, the index is as before and no write was tried.
\<close>

theorem remote_call_precedes_index_mutation_witness:
  "fst (processAlert config_update env_remote_down (alert_DiskFull ''firing'') world_empty) \<noteq> None \<and>
   store (snd (processAlert config_update env_remote_down (alert_DiskFull ''firing'') world_empty))
     = store world_empty \<and>
   filter is_mutation (new_events world_empty
     (snd (processAlert config_update env_remote_down (alert_DiskFull ''firing'') world_empty))) = []"
proof -
  have new: "new_events world_empty
      (snd (processAlert config_update env_remote_down (alert_DiskFull ''firing'') world_empty))
      = [DbGet ''fp:abc123'', Call (Create (create_request config_update (alert_DiskFull ''firing'')))]"
    by (simp add: processAlert_eq createAlert_eq getAlertID_eq new_events_def alert_DiskFull_def
        world_empty_def env_remote_down_def CreateAlert_def dbKey_def Let_def)
  have failed: "call_error (Create (create_request config_update (alert_DiskFull ''firing'')))
      (http env_remote_down (length (trace world_empty) + 1)) \<noteq> None"
    by (simp add: env_remote_down_def CreateAlert_def)
  from remote_call_precedes_index_mutation [OF surjective_pairing,
      where config = config_update and e = env_remote_down
        and alert = "alert_DiskFull ''firing''" and w = world_empty]
  have "\<forall>j c. j < length (new_events world_empty
          (snd (processAlert config_update env_remote_down (alert_DiskFull ''firing'') world_empty))) \<and>
        new_events world_empty
          (snd (processAlert config_update env_remote_down (alert_DiskFull ''firing'') world_empty)) ! j = Call c \<and>
        call_error c (http env_remote_down (length (trace world_empty) + j)) \<noteq> None \<longrightarrow>
        fst (processAlert config_update env_remote_down (alert_DiskFull ''firing'') world_empty) \<noteq> None \<and>
        store (snd (processAlert config_update env_remote_down (alert_DiskFull ''firing'') world_empty))
          = store world_empty \<and>
        filter is_mutation (new_events world_empty
          (snd (processAlert config_update env_remote_down (alert_DiskFull ''firing'') world_empty))) = []"
    by blast
  from this [rule_format, of 1 "Create (create_request config_update (alert_DiskFull ''firing''))"]
    new failed
  show ?thesis by simp
qed


section \<open>The reconciler: resolution actions other than delete\<close>

text \<open>
  Claim C10, as amended. For every configured resolved-action string other than
  \<^verbatim>\<open>"delete"\<close> (the empty string and unrecognized values included) resolving a tracked alert
  behaves exactly as with the action \<^verbatim>\<open>"update"\<close>: it issues exactly one remote call, an
  update call that sets the status to the configured resolved status code, and never a
  delete call. When that call succeeds and the delete on the index succeeds, the index entry
  is removed after the call and no error is returned; when the call returns an error, or
  the delete on the index fails, an error is returned and the index entry stays.
\<close>

theorem non_delete_action_is_update:
  assumes other: "ResolvedAction config \<noteq> ''delete''"
  shows "resolveAlert config e alertID alert w =
           resolveAlert (config \<lparr> ResolvedAction := ''update'' \<rparr>) e alertID alert w \<and>
         remote_calls (new_events w (snd (resolveAlert config e alertID alert w))) =
           [Update alertID (empty_update \<lparr> upd_status_id := Some (StatusIDResolved config) \<rparr>)] \<and>
         (UpdateAlert alertID (resolve_request config) (http e (length (trace w))) = None \<and>
          \<not> db_fault e (Suc (length (trace w))) \<longrightarrow>
            fst (resolveAlert config e alertID alert w) = None \<and>
            new_events w (snd (resolveAlert config e alertID alert w)) =
              [Call (Update alertID (resolve_request config)), DbDelete (dbKey (Fingerprint alert))] \<and>
            store (snd (resolveAlert config e alertID alert w)) =
              (store w)(dbKey (Fingerprint alert) := None)) \<and>
         (UpdateAlert alertID (resolve_request config) (http e (length (trace w))) \<noteq> None \<or>
          db_fault e (Suc (length (trace w))) \<longrightarrow>
            fst (resolveAlert config e alertID alert w) \<noteq> None \<and>
            store (snd (resolveAlert config e alertID alert w)) = store w)"
  using other
  by (auto simp: resolveAlert_eq resolve_call_def resolve_request_def new_events_def
      split: option.splits)

text \<open>
  The theorem at the empty action string, with a remote that answers with success: the same
  result as with \<^verbatim>\<open>"update"\<close>, one update call setting the status to 6, the entry removed.
\<close>

theorem non_delete_action_is_update_witness:
  "resolveAlert config_blank env_ok 7 (alert_DiskFull ''resolved'') world_tracked =
     resolveAlert (config_blank \<lparr> ResolvedAction := ''update'' \<rparr>) env_ok 7
       (alert_DiskFull ''resolved'') world_tracked \<and>
   remote_calls (new_events world_tracked
      (snd (resolveAlert config_blank env_ok 7 (alert_DiskFull ''resolved'') world_tracked))) =
     [Update 7 (empty_update \<lparr> upd_status_id := Some 6 \<rparr>)] \<and>
   store (snd (resolveAlert config_blank env_ok 7 (alert_DiskFull ''resolved'') world_tracked))
     = Map.empty"
proof -
  have other: "ResolvedAction config_blank \<noteq> ''delete''"
    by (simp add: config_blank_def)
  have ok: "UpdateAlert 7 (resolve_request config_blank)
      (http env_ok (length (trace world_tracked))) = None"
    by (simp add: UpdateAlert_def env_ok_def success_response_def)
  have healthy: "\<not> db_fault env_ok (Suc (length (trace world_tracked)))"
    by (simp add: env_ok_def)
  have key: "dbKey (Fingerprint (alert_DiskFull ''resolved'')) = ''fp:abc123''"
    by (simp add: dbKey_def alert_DiskFull_def)
  have code: "StatusIDResolved config_blank = 6"
    by (simp add: config_blank_def config_update_def)
  have st: "store world_tracked = [''fp:abc123'' \<mapsto> ''7'']"
    by (simp add: world_tracked_def)
  note th = non_delete_action_is_update [OF other, where e = env_ok and alertID = 7
      and alert = "alert_DiskFull ''resolved''" and w = world_tracked]
  from th have same: "resolveAlert config_blank env_ok 7 (alert_DiskFull ''resolved'') world_tracked =
     resolveAlert (config_blank \<lparr> ResolvedAction := ''update'' \<rparr>) env_ok 7
       (alert_DiskFull ''resolved'') world_tracked"
    by blast
  from th code have calls: "remote_calls (new_events world_tracked
      (snd (resolveAlert config_blank env_ok 7 (alert_DiskFull ''resolved'') world_tracked))) =
     [Update 7 (empty_update \<lparr> upd_status_id := Some 6 \<rparr>)]"
    by metis
  from th ok healthy have "store (snd (resolveAlert config_blank env_ok 7
      (alert_DiskFull ''resolved'') world_tracked)) =
      (store world_tracked)(dbKey (Fingerprint (alert_DiskFull ''resolved'')) := None)"
    by blast
  with key st have gone: "store (snd (resolveAlert config_blank env_ok 7
      (alert_DiskFull ''resolved'') world_tracked)) = Map.empty"
    by simp
  show ?thesis
  proof (intro conjI)
    show "resolveAlert config_blank env_ok 7 (alert_DiskFull ''resolved'') world_tracked =
     resolveAlert (config_blank \<lparr> ResolvedAction := ''update'' \<rparr>) env_ok 7
       (alert_DiskFull ''resolved'') world_tracked"
      by (rule same)
  qed (rule calls, rule gone)
qed

text \<open>
  Claim C10 as stated fails when the update call fails: with the empty action string and a
  remote that answers 500, the update call is issued and the index entry is not removed.
\<close>

theorem non_delete_action_counterexample:
  "ResolvedAction config_blank \<noteq> ''delete'' \<and>
   remote_calls (new_events world_tracked
      (snd (resolveAlert config_blank env_remote_down 7 (alert_DiskFull ''resolved'') world_tracked)))
     = [Update 7 (resolve_request config_blank)] \<and>
   store (snd (resolveAlert config_blank env_remote_down 7 (alert_DiskFull ''resolved'') world_tracked))
     (dbKey (Fingerprint (alert_DiskFull ''resolved''))) = Some ''7''"
  by (simp add: resolveAlert_eq resolve_call_def new_events_def config_blank_def config_update_def
      env_remote_down_def UpdateAlert_def world_tracked_def alert_DiskFull_def dbKey_def)


section \<open>Webhook ingress: every alert of a batch is processed\<close>

lemma process_alerts_Cons:
  "process_alerts config e (alert # rest) w =
     (fst (processAlert config e alert w)
        # fst (process_alerts config e rest (snd (processAlert config e alert w))),
      snd (process_alerts config e rest (snd (processAlert config e alert w))))"
  by (simp split: prod.splits option.splits)

lemma process_alerts_world:
  "snd (process_alerts config e alerts w) =
     foldl (\<lambda>v alert. snd (processAlert config e alert v)) w alerts"
  by (induction alerts arbitrary: w) (simp_all add: process_alerts_Cons del: process_alerts.simps(2))

lemma process_alerts_length:
  "length (fst (process_alerts config e alerts w)) = length alerts"
  by (induction alerts arbitrary: w) (simp_all add: process_alerts_Cons del: process_alerts.simps(2))

lemma process_alerts_nth:
  "i < length alerts \<Longrightarrow>
     fst (process_alerts config e alerts w) ! i =
       fst (processAlert config e (alerts ! i)
         (foldl (\<lambda>v alert. snd (processAlert config e alert v)) w (take i alerts)))"
proof (induction alerts arbitrary: w i)
  case Nil
  then show ?case by simp
next
  case (Cons a alerts)
  show ?case
  proof (cases i)
    case 0
    then show ?thesis by (simp add: process_alerts_Cons del: process_alerts.simps(2))
  next
    case (Suc k)
    with Cons.prems have "k < length alerts" by simp
    from Cons.IH [OF this, of "snd (processAlert config e a w)"] Suc
    show ?thesis by (simp add: process_alerts_Cons del: process_alerts.simps(2))
  qed
qed

text \<open>
  Claim C9. For every request whose body decodes to a batch of \<open>N\<close> alerts, the handler
  responds 200 and there are \<open>N\<close> outcomes, one per alert, in the order of the batch: the
  \<open>i\<close>-th alert is processed by \<^verbatim>\<open>processAlert\<close> in the world that the alerts before it
  left behind, whatever they returned. So an error while processing one alert (from the
  remote call or from the local store) does not keep the following alerts from being
  processed, and it does not change the response.
\<close>

theorem batch_processes_every_alert:
  assumes post: "Method req = ''POST''"
      and decoded: "Payload req = Some payload"
      and run: "HandleWebhook config e req w = (code, outs, w')"
  shows "code = 200 \<and>
         length outs = length (Alerts payload) \<and>
         (\<forall>i. i < length (Alerts payload) \<longrightarrow>
            processAlert config e (Alerts payload ! i) (world_before config e (Alerts payload) w i)
              = (outs ! i, world_before config e (Alerts payload) w (Suc i))) \<and>
         w' = world_before config e (Alerts payload) w (length (Alerts payload))"
proof -
  from post decoded run have
    code: "code = 200" and
    outs: "outs = fst (process_alerts config e (Alerts payload) w)" and
    w': "w' = snd (process_alerts config e (Alerts payload) w)"
    by (auto simp: HandleWebhook_def split: prod.splits)
  have step: "processAlert config e (Alerts payload ! i) (world_before config e (Alerts payload) w i)
      = (outs ! i, world_before config e (Alerts payload) w (Suc i))"
    if "i < length (Alerts payload)" for i
    using that
    by (simp add: outs process_alerts_nth world_before_def take_Suc_conv_app_nth prod_eq_iff)
  from code outs w' step show ?thesis
    by (simp add: process_alerts_length process_alerts_world world_before_def)
qed

lemma first_alert_fails:
  "processAlert config_update env_first_call_fails (alert_DiskFull ''firing'') world_empty =
     (Some (Wrap ''create iris alert'' (ErrStatusCode 500)),
      \<lparr> store = Map.empty,
        trace = [DbGet ''fp:abc123'',
                 Call (Create (create_request config_update (alert_DiskFull ''firing'')))] \<rparr>)"
  by (simp add: processAlert_eq createAlert_eq getAlertID_eq alert_DiskFull_def world_empty_def
      env_first_call_fails_def CreateAlert_def dbKey_def Let_def)

lemma second_alert_created:
  "processAlert config_update env_first_call_fails alert_other
     \<lparr> store = Map.empty,
       trace = [DbGet ''fp:abc123'',
                Call (Create (create_request config_update (alert_DiskFull ''firing'')))] \<rparr> =
     (None,
      \<lparr> store = [''fp:def456'' \<mapsto> ''8''],
        trace = [DbGet ''fp:abc123'',
                 Call (Create (create_request config_update (alert_DiskFull ''firing''))),
                 DbGet ''fp:def456'',
                 Call (Create (create_request config_update alert_other)),
                 DbSet ''fp:def456'' ''8''] \<rparr>)"
  by (simp add: processAlert_eq createAlert_eq getAlertID_eq alert_other_def
      env_first_call_fails_def success_response_def CreateAlert_def dbKey_def Itoa_8 Let_def)

text \<open>
  The theorem at a batch of two new firing alerts where the remote answers 500 to the first
  create call: the first alert ends in an error, the second is created and stored, the
  response is 200.
\<close>

theorem batch_processes_every_alert_witness:
  "fst (HandleWebhook config_update env_first_call_fails batch_request world_empty) = 200 \<and>
   fst (snd (HandleWebhook config_update env_first_call_fails batch_request world_empty)) =
     [Some (Wrap ''create iris alert'' (ErrStatusCode 500)), None] \<and>
   remote_calls (trace (snd (snd
       (HandleWebhook config_update env_first_call_fails batch_request world_empty)))) =
     [Create (create_request config_update (alert_DiskFull ''firing'')),
      Create (create_request config_update alert_other)] \<and>
   store (snd (snd (HandleWebhook config_update env_first_call_fails batch_request world_empty))) =
     [''fp:def456'' \<mapsto> ''8'']"
proof -
  let ?run = "HandleWebhook config_update env_first_call_fails batch_request world_empty"
  let ?alerts = "[alert_DiskFull ''firing'', alert_other]"
  have post: "Method batch_request = ''POST''"
    by (simp add: batch_request_def)
  have decoded: "Payload batch_request =
      Some \<lparr> Receiver = ''iris'', Alerts = ?alerts, ExternalURL = [], GroupKey = [] \<rparr>"
    by (simp add: batch_request_def)
  have run: "?run = (fst ?run, fst (snd ?run), snd (snd ?run))"
    by simp
  note th = batch_processes_every_alert [OF post decoded run]
  from th have code: "fst ?run = 200"
    by blast
  from th have len: "length (fst (snd ?run)) = 2"
    by simp
  have w0: "world_before config_update env_first_call_fails ?alerts world_empty 0 = world_empty"
    by (simp add: world_before_def)
  from th have steps: "processAlert config_update env_first_call_fails (?alerts ! i)
      (world_before config_update env_first_call_fails ?alerts world_empty i) =
      (fst (snd ?run) ! i, world_before config_update env_first_call_fails ?alerts world_empty (Suc i))"
    if "i < 2" for i
    using that by simp
  from steps [of 0] w0 first_alert_fails have
    out0: "fst (snd ?run) ! 0 = Some (Wrap ''create iris alert'' (ErrStatusCode 500))" and
    w1: "world_before config_update env_first_call_fails ?alerts world_empty (Suc 0) =
      \<lparr> store = Map.empty,
        trace = [DbGet ''fp:abc123'',
                 Call (Create (create_request config_update (alert_DiskFull ''firing'')))] \<rparr>"
    by simp_all
  from steps [of 1] w1 second_alert_created have
    out1: "fst (snd ?run) ! 1 = None" and
    w2: "world_before config_update env_first_call_fails ?alerts world_empty (Suc (Suc 0)) =
      \<lparr> store = [''fp:def456'' \<mapsto> ''8''],
        trace = [DbGet ''fp:abc123'',
                 Call (Create (create_request config_update (alert_DiskFull ''firing''))),
                 DbGet ''fp:def456'',
                 Call (Create (create_request config_update alert_other)),
                 DbSet ''fp:def456'' ''8''] \<rparr>"
    by simp_all
  from th w2 have final: "snd (snd ?run) =
      \<lparr> store = [''fp:def456'' \<mapsto> ''8''],
        trace = [DbGet ''fp:abc123'',
                 Call (Create (create_request config_update (alert_DiskFull ''firing''))),
                 DbGet ''fp:def456'',
                 Call (Create (create_request config_update alert_other)),
                 DbSet ''fp:def456'' ''8''] \<rparr>"
    by simp
  from len out0 out1 have outs:
    "fst (snd ?run) = [Some (Wrap ''create iris alert'' (ErrStatusCode 500)), None]"
    by (cases "fst (snd ?run)"; cases "tl (fst (snd ?run))") auto
  from code outs final show ?thesis
    by simp
qed

end
